theory Spec2Isabelle
  imports Complex_Main "HOL-Library.Sublist"
begin

section \<open>Data model\<close>

text \<open>
  The ledger code lives in three files: \<^verbatim>\<open>src/lib/pdfGenerator.ts\<close> (statement renderer and
  multi-client combiner), \<^verbatim>\<open>src/components/ClientDetail.tsx\<close> (interactive ledger) and the
  Reports component (analytics and CSV export).

  A JavaScript \<^verbatim>\<open>number\<close> is modelled as a rational with exact arithmetic: every finite
  double is a rational, and the rounding of IEEE addition is left out. A numeric field that
  may be \<^verbatim>\<open>null\<close>/\<^verbatim>\<open>undefined\<close> at run time (the code guards each read with \<^verbatim>\<open>|| 0\<close>) is a
  \<open>rat option\<close>, \<open>None\<close> being the missing value. Strings are byte strings (UTF-8).
\<close>

datatype currency = KES | USD

datatype reportType = Full | Summary | KesOnly | UsdOnly

text \<open>
  \<^verbatim>\<open>client_name\<close> and \<^verbatim>\<open>client_code\<close> occur in \<^verbatim>\<open>Client\<close>, in \<^verbatim>\<open>TopClient\<close> and in the joined
  \<^verbatim>\<open>clients\<close> row of a report transaction; they are the fields of a common parent record.
\<close>

record named =
  client_name :: string
  client_code :: string

record client = named +
  email :: "string option"
  phone :: "string option"
  business_name :: "string option"
  address :: "string option"

text \<open>
  \<^verbatim>\<open>interface Transaction\<close> of pdfGenerator.ts. The transactions of ClientDetail.tsx and of
  the Reports component carry more fields (\<^verbatim>\<open>id\<close>, \<^verbatim>\<open>client_id\<close>, \<^verbatim>\<open>clients\<close>); they are
  extensions of this record, and the functions below accept any extension. The field
  \<^verbatim>\<open>notes\<close> is \<open>txn_notes\<close> here (\<open>notes\<close> is reserved in Isabelle).
\<close>

record transaction =
  transaction_date :: string
  description :: "string option"
  debit :: "rat option"
  credit :: "rat option"
  payment_method :: "string option"
  reference_number :: "string option"
  txn_notes :: "string option"

record summary =
  receivable :: rat
  paid :: rat
  balance :: rat

text \<open>\<^verbatim>\<open>x || 0\<close> on a number that may be missing: \<^verbatim>\<open>null\<close>, \<^verbatim>\<open>undefined\<close> and \<^verbatim>\<open>0\<close> are falsy.\<close>

definition or_zero :: "rat option \<Rightarrow> rat" where
  "or_zero x = (case x of None \<Rightarrow> 0 | Some v \<Rightarrow> (if v = 0 then 0 else v))"

text \<open>\<^verbatim>\<open>s || ""\<close> on a string that may be missing.\<close>

definition or_empty :: "string option \<Rightarrow> string" where
  "or_empty s = (case s of None \<Rightarrow> [] | Some v \<Rightarrow> (if v = [] then [] else v))"

section \<open>Ledger aggregator\<close>

text \<open>
  \<^verbatim>\<open>calculateSummary\<close> of pdfGenerator.ts (lines 393-404): one \<^verbatim>\<open>forEach\<close> over the
  transactions updating the two accumulators \<^verbatim>\<open>paid\<close> and \<^verbatim>\<open>receivable\<close>.
\<close>

definition calculateSummary :: "'a transaction_scheme list \<Rightarrow> summary" where
  "calculateSummary txns =
     (let (paid', receivable') =
            fold (\<lambda>t (p, r). (p + or_zero (credit t), r + or_zero (debit t))) txns (0, 0);
          balance' = paid' - receivable'
      in \<lparr>receivable = receivable', paid = paid', balance = balance'\<rparr>)"

text \<open>
  \<^verbatim>\<open>calculateSummary\<close> of ClientDetail.tsx (lines 102-114): two \<^verbatim>\<open>reduce\<close> calls starting
  from 0; the summary handed to \<^verbatim>\<open>setSummary\<close> is the result.
\<close>

definition calculateSummary_ClientDetail :: "'a transaction_scheme list \<Rightarrow> summary" where
  "calculateSummary_ClientDetail transactions =
     (let receivable' = foldl (\<lambda>sum t. sum + or_zero (debit t)) 0 transactions;
          paid' = foldl (\<lambda>sum t. sum + or_zero (credit t)) 0 transactions;
          balance' = paid' - receivable'
      in \<lparr>receivable = receivable', paid = paid', balance = balance'\<rparr>)"

section \<open>Statement renderer\<close>

text \<open>
  What the renderer takes from outside the repository's sources: \<^verbatim>\<open>formatCurrency\<close> (module
  \<^verbatim>\<open>./currency\<close>) and the \<^verbatim>\<open>Date\<close> object of the platform. \<open>getTime s\<close> is
  \<^verbatim>\<open>new Date(s).getTime()\<close> for a valid date string (a string that is no date gives
  \<^verbatim>\<open>NaN\<close>, for which the order of \<^verbatim>\<open>sort\<close> is left to the engine and which is not
  modelled), \<open>toLocaleDateString s\<close> is its
  \<^verbatim>\<open>en-GB\<close> rendering, \<open>stmtDate\<close> and \<open>isoDate\<close> are the two renderings of the current date
  used by the renderer and \<open>localeString\<close> is \<^verbatim>\<open>new Date().toLocaleString()\<close>.
  \<open>numberToStringOther\<close> is the conversion of a number to a string where the number is not an
  integer below \<open>10^21\<close> in absolute value (for those the conversion is written out below).
\<close>

record platform =
  formatCurrency :: "rat \<Rightarrow> currency \<Rightarrow> string"
  getTime :: "string \<Rightarrow> int"
  toLocaleDateString :: "string \<Rightarrow> string"
  stmtDate :: string
  isoDate :: string
  localeString :: string
  numberToStringOther :: "rat \<Rightarrow> string"

text \<open>
  \<^verbatim>\<open>Array.prototype.sort(compare)\<close> is a stable sort: for a comparator that is consistent (a
  total preorder, which holds for the differences of keys used in this program) its result
  is the one of insertion sort, whatever algorithm the engine runs.
\<close>

fun insertBy :: "('a \<Rightarrow> 'a \<Rightarrow> 'b::{linorder,zero}) \<Rightarrow> 'a \<Rightarrow> 'a list \<Rightarrow> 'a list" where
  "insertBy compare x [] = [x]"
| "insertBy compare x (y # ys) =
     (if compare x y \<le> 0 then x # y # ys else y # insertBy compare x ys)"

definition sortBy :: "('a \<Rightarrow> 'a \<Rightarrow> 'b::{linorder,zero}) \<Rightarrow> 'a list \<Rightarrow> 'a list" where
  "sortBy compare xs = foldr (insertBy compare) xs []"

text \<open>
  The comparator of lines 124-128 and 381-391:
  \<^verbatim>\<open>(a, b) => new Date(a.transaction_date).getTime() - new Date(b.transaction_date).getTime()\<close>.
\<close>

definition sortByDate :: "platform \<Rightarrow> 'a transaction_scheme list \<Rightarrow> 'a transaction_scheme list" where
  "sortByDate P txns =
     sortBy (\<lambda>a b. getTime P (transaction_date a) - getTime P (transaction_date b)) txns"

text \<open>
  The values of the mutable variable \<^verbatim>\<open>runBal\<close> of \<^verbatim>\<open>buildTableData\<close> (lines 129-133) after
  each call of the \<^verbatim>\<open>map\<close> callback, given its value before the first call.
\<close>

fun runBals :: "rat \<Rightarrow> 'a transaction_scheme list \<Rightarrow> rat list" where
  "runBals runBal [] = []"
| "runBals runBal (t # ts) =
     (let inAmt = or_zero (credit t);
          outAmt = or_zero (debit t);
          runBal' = runBal + (inAmt - outAmt)
      in runBal' # runBals runBal' ts)"

text \<open>The row the callback returns for transaction \<open>t\<close> once \<^verbatim>\<open>runBal\<close> is updated (lines 134-144).\<close>

definition tableRow :: "platform \<Rightarrow> currency \<Rightarrow> 'a transaction_scheme \<Rightarrow> rat \<Rightarrow> string list" where
  "tableRow P csym t runBal =
     (let inAmt = or_zero (credit t);
          outAmt = or_zero (debit t)
      in [toLocaleDateString P (transaction_date t),
          or_empty (description t),
          (if inAmt > 0 then formatCurrency P inAmt csym else ''-''),
          (if outAmt > 0 then formatCurrency P outAmt csym else ''-''),
          (if runBal < 0 then ''-'' else []) @ formatCurrency P \<bar>runBal\<bar> csym])"

definition buildTableData :: "platform \<Rightarrow> 'a transaction_scheme list \<Rightarrow> currency \<Rightarrow> string list list" where
  "buildTableData P txns csym =
     (let sorted = sortByDate P txns
      in map2 (tableRow P csym) sorted (runBals 0 sorted))"

subsection \<open>The mileage pattern\<close>

text \<open>
  \<^verbatim>\<open>/\bmg\b/i.test(s)\<close>. A word character is one of \<^verbatim>\<open>[A-Za-z0-9_]\<close>; \<^verbatim>\<open>\b\<close> holds between a
  word character and a non-word character or an end of the string. The scan goes through the
  string from the left and remembers whether the previous character was a word character.
\<close>

definition isWordChar :: "char \<Rightarrow> bool" where
  "isWordChar c =
     (c \<in> set ''abcdefghijklmnopqrstuvwxyzABCDEFGHIJKLMNOPQRSTUVWXYZ0123456789_'')"

definition is_m :: "char \<Rightarrow> bool" where
  "is_m c = (c = CHR ''m'' \<or> c = CHR ''M'')"

definition is_g :: "char \<Rightarrow> bool" where
  "is_g c = (c = CHR ''g'' \<or> c = CHR ''G'')"

fun mgScan :: "bool \<Rightarrow> string \<Rightarrow> bool" where
  "mgScan prevWord [] = False"
| "mgScan prevWord (c # cs) =
     (((\<not> prevWord) \<and> is_m c \<and>
         (case cs of
            [] \<Rightarrow> False
          | d # ds \<Rightarrow> is_g d \<and> (case ds of [] \<Rightarrow> True | e # _ \<Rightarrow> \<not> isWordChar e)))
      \<or> mgScan (isWordChar c) cs)"

definition testMg :: "string \<Rightarrow> bool" where
  "testMg s = mgScan False s"

text \<open>\<^verbatim>\<open>mgCount\<close> of pdfGenerator.ts (lines 175-177): the pattern is tested on \<^verbatim>\<open>t.description || ""\<close>.\<close>

definition mgCount :: "'a transaction_scheme list \<Rightarrow> nat" where
  "mgCount txns = length (filter (\<lambda>t. testMg (or_empty (description t))) txns)"

text \<open>
  \<^verbatim>\<open>mgCount\<close> of ClientDetail.tsx (lines 131-136): the pattern is tested on \<^verbatim>\<open>t.description\<close>
  itself, and \<^verbatim>\<open>RegExp.prototype.test\<close> converts a \<^verbatim>\<open>null\<close> argument to the string
  \<^verbatim>\<open>"null"\<close>.
\<close>

definition mgCount_ClientDetail :: "'a transaction_scheme list \<Rightarrow> nat" where
  "mgCount_ClientDetail currentTransactions =
     length (filter (\<lambda>t. testMg (case description t of None \<Rightarrow> ''null'' | Some d \<Rightarrow> d))
       currentTransactions)"

subsection \<open>Numbers in template strings\<close>

text \<open>The decimal digits of a natural number, as a template string shows a count.\<close>

fun natToString :: "nat \<Rightarrow> string" where
  "natToString n =
     (if n < 10 then [''0123456789'' ! n]
      else natToString (n div 10) @ [''0123456789'' ! (n mod 10)])"

declare natToString.simps [simp del]

subsection \<open>The document\<close>

text \<open>
  The jsPDF document is modelled by what is drawn on it: the texts of the header band, and
  below it the body, a sequence of table sections and texts. Coordinates, fonts, colours of
  cells and the page footers (which depend on the pagination of jspdf-autotable) are left out.
\<close>

type_synonym color = "nat \<times> nat \<times> nat"

record table_section =
  sec_label :: string
  sec_sym :: currency
  sec_headColor :: color
  sec_head :: "string list list"
  sec_body :: "string list list"
  sec_foot :: "string list list"

datatype body_item = SectionItem table_section | TextItem string

record document =
  headerBand :: "string list"
  body :: "body_item list"

definition HEAD_GREEN :: color where
  "HEAD_GREEN = (16, 185, 129)"

definition HEAD_BLUE :: color where
  "HEAD_BLUE = (59, 130, 246)"

text \<open>\<^verbatim>\<open>renderSection\<close> (lines 148-250): the section label, then one table with two footer rows.\<close>

definition renderSection ::
  "platform \<Rightarrow> string \<Rightarrow> 'a transaction_scheme list \<Rightarrow> currency \<Rightarrow> summary \<Rightarrow> color
     \<Rightarrow> body_item list \<Rightarrow> body_item list" where
  "renderSection P label txns csym summ headColor doc =
     (let rows = buildTableData P txns csym;
          footBal = (if balance summ < 0 then ''-'' else [])
                      @ formatCurrency P \<bar>balance summ\<bar> csym;
          footRow = [[], ''BALANCE'', formatCurrency P (paid summ) csym,
                     formatCurrency P (receivable summ) csym, footBal];
          mgCount' = mgCount txns;
          mgRow = [[],
                   ''Mileage (MG) Count: '' @ natToString mgCount' @ '' trip''
                     @ (if mgCount' \<noteq> 1 then ''s'' else []),
                   [], [], []]
      in doc @ [SectionItem
           \<lparr>sec_label = label, sec_sym = csym, sec_headColor = headColor,
            sec_head = [[''Date'', ''Description'', ''Money IN'', ''Money OUT'', ''Balance'']],
            sec_body = rows, sec_foot = [footRow, mgRow]\<rparr>])"

text \<open>
  \<^verbatim>\<open>interface ReportOptions\<close>; its first three fields are also the fields of an entry of the
  combiner's \<^verbatim>\<open>clients\<close> array.
\<close>

record client_txns =
  client :: client
  transactionsKES :: "transaction list"
  transactionsUSD :: "transaction list"

record reportOptions = client_txns +
  summaryKES :: summary
  summaryUSD :: summary
  reportType :: reportType

text \<open>The em dash of the section labels, in UTF-8.\<close>

definition emDash :: string where
  "emDash = [CHR 0xE2, CHR 0x80, CHR 0x94]"

definition noTransactionsNotice :: string where
  "noTransactionsNotice = ''No transactions recorded.''"

text \<open>
  \<^verbatim>\<open>generateClientPDFReport\<close> (lines 37-315): the document and the file name that are handed
  to \<^verbatim>\<open>onDocReady\<close> or saved. An exception of jsPDF itself is not modelled.
\<close>

definition generateClientPDFReport :: "platform \<Rightarrow> reportOptions \<Rightarrow> document \<times> string" where
  "generateClientPDFReport P options =
     (let showKES = ((reportType options = Full \<or> reportType options = KesOnly
                       \<or> reportType options = Summary)
                     \<and> length (transactionsKES options) > 0);
          showUSD = ((reportType options = Full \<or> reportType options = UsdOnly)
                     \<and> length (transactionsUSD options) > 0);
          header = [''DINIX GENERAL TRADING'', ''ACCOUNT STATEMENT'', ''Date: '' @ stmtDate P,
                    client_name (client options),
                    ''Account: '' @ client_code (client options)]
                   @ (case phone (client options) of
                        None \<Rightarrow> []
                      | Some ph \<Rightarrow> (if ph = [] then [] else [''Tel: '' @ ph]));
          doc0 = [];
          doc1 = (if showKES
                  then renderSection P
                         (''TRANSACTION HISTORY '' @ emDash @ '' KES (Kenyan Shillings)'')
                         (transactionsKES options) KES (summaryKES options) HEAD_GREEN doc0
                  else doc0);
          doc2 = (if showUSD
                  then renderSection P
                         (''TRANSACTION HISTORY '' @ emDash @ '' USD (US Dollars)'')
                         (transactionsUSD options) USD (summaryUSD options) HEAD_BLUE doc1
                  else doc1);
          doc3 = (if \<not> showKES \<and> \<not> showUSD
                  then doc2 @ [TextItem noTransactionsNotice]
                  else doc2);
          fileName = ''Dinix_Statement_'' @ client_code (client options) @ ''_'' @ isoDate P
                       @ ''.pdf''
      in (\<lparr>headerBand = header, body = doc3\<rparr>, fileName))"

section \<open>Multi-client combiner\<close>

datatype error = Error string

text \<open>\<^verbatim>\<open>Array.prototype.join(sep)\<close> on an array of strings.\<close>

fun join :: "string \<Rightarrow> string list \<Rightarrow> string" where
  "join sep [] = []"
| "join sep [x] = x"
| "join sep (x # y # ys) = x @ sep @ join sep (y # ys)"

text \<open>\<^verbatim>\<open>displayName\<close> (lines 340-343).\<close>

definition displayName :: "string list \<Rightarrow> string" where
  "displayName allNames =
     (if length allNames \<le> 2 then join '' & '' allNames
      else join '' & '' (take 2 allNames) @ '' + '' @ natToString (length allNames - 2)
             @ '' more'')"

text \<open>\<^verbatim>\<open>combinedClient\<close> (lines 345-352).\<close>

definition combinedClient :: "client_txns list \<Rightarrow> client" where
  "combinedClient clients =
     (let allNames = map (\<lambda>c. client_name (client c)) clients;
          allCodes = map (\<lambda>c. client_code (client c)) clients
      in \<lparr>client_name = displayName allNames, client_code = join '' + '' allCodes,
          email = None, phone = None, business_name = None, address = None\<rparr>)"

text \<open>
  The object pushed for transaction \<open>t\<close> of the client called \<open>name\<close> (lines 360-366 and
  370-376): a copy of \<open>t\<close> with a new description.
\<close>

definition rewriteDescription :: "string \<Rightarrow> transaction \<Rightarrow> transaction" where
  "rewriteDescription name t =
     (let baseDescription = or_empty (description t)
      in t\<lparr>description :=
             Some (if baseDescription \<noteq> [] then name @ '' - '' @ baseDescription else name)\<rparr>)"

text \<open>The inner \<^verbatim>\<open>forEach\<close>: one \<^verbatim>\<open>push\<close> for each transaction of the client.\<close>

definition pushAll :: "string \<Rightarrow> transaction list \<Rightarrow> transaction list \<Rightarrow> transaction list" where
  "pushAll name txns acc = fold (\<lambda>t all. all @ [rewriteDescription name t]) txns acc"

text \<open>The outer \<^verbatim>\<open>forEach\<close> (lines 358-378) on the two arrays \<^verbatim>\<open>allKES\<close> and \<^verbatim>\<open>allUSD\<close>.\<close>

definition combineAll :: "client_txns list \<Rightarrow> transaction list \<times> transaction list" where
  "combineAll clients =
     fold (\<lambda>c (allKES, allUSD).
             (pushAll (client_name (client c)) (transactionsKES c) allKES,
              pushAll (client_name (client c)) (transactionsUSD c) allUSD))
       clients ([], [])"

text \<open>
  \<^verbatim>\<open>generateCombinedClientsPDFReport\<close> (lines 320-420) up to its last statement: the error it
  throws, or the options it hands to \<^verbatim>\<open>generateClientPDFReport\<close>.
\<close>

definition combinedOptions :: "platform \<Rightarrow> client_txns list \<Rightarrow> error + reportOptions" where
  "combinedOptions P clients =
     (if length clients = 0 then Inl (Error ''No clients provided for combined statement'')
      else
        (let (allKES, allUSD) = combineAll clients;
             combinedKES = sortByDate P allKES;
             combinedUSD = sortByDate P allUSD;
             summaryKES' = calculateSummary combinedKES;
             summaryUSD' = calculateSummary combinedUSD
         in Inr \<lparr>client = combinedClient clients,
                 transactionsKES = combinedKES, transactionsUSD = combinedUSD,
                 summaryKES = summaryKES', summaryUSD = summaryUSD',
                 reportType = Full\<rparr>))"

definition generateCombinedClientsPDFReport ::
  "platform \<Rightarrow> client_txns list \<Rightarrow> error + document \<times> string" where
  "generateCombinedClientsPDFReport P clients =
     (case combinedOptions P clients of
        Inl e \<Rightarrow> Inl e
      | Inr options \<Rightarrow> Inr (generateClientPDFReport P options))"

section \<open>Interactive ledger\<close>



section \<open>Analytics and CSV export\<close>

text \<open>
  The rows the Reports component reads: a client row (\<^verbatim>\<open>id, status\<close>) and a transaction row
  with the identifier of its client and the joined \<^verbatim>\<open>clients\<close> value, which arrives as one
  object or as an array. HOL record fields share one name space, so the fields \<^verbatim>\<open>id\<close>,
  \<^verbatim>\<open>client_id\<close> and \<^verbatim>\<open>clients\<close> of a transaction row are \<open>txn_id\<close>, \<open>txn_client_id\<close> and
  \<open>txn_clients\<close> here.
\<close>

record client_row =
  row_id :: string
  status :: string

datatype joined = Single named | Array "named list"

record report_transaction = transaction +
  txn_id :: string
  txn_client_id :: string
  txn_clients :: joined

record clientStats =
  totalClients :: rat
  activeClients :: rat
  inactiveClients :: rat
  totalBalanceKES :: rat
  totalBalanceUSD :: rat
  totalTransactions :: rat

record topClient = named +
  client_id :: string
  total_balance_kes :: rat
  total_balance_usd :: rat
  transaction_count :: rat

record monthlyTrend =
  month :: string
  transactions_kes :: rat
  transactions_usd :: rat
  balance_kes :: rat
  balance_usd :: rat

text \<open>
  The statistics handed to \<^verbatim>\<open>setClientStats\<close> (lines 128-200). A query result may be
  \<^verbatim>\<open>null\<close>, which \<^verbatim>\<open>?.\<close> and \<^verbatim>\<open>|| 0\<close> turn into 0.
\<close>

definition netTotal :: "report_transaction list option \<Rightarrow> rat" where
  "netTotal txns =
     (case txns of
        None \<Rightarrow> 0
      | Some ts \<Rightarrow> foldl (\<lambda>sum t. sum + or_zero (credit t) - or_zero (debit t)) 0 ts)"

definition countOf :: "'a list option \<Rightarrow> rat" where
  "countOf xs = (case xs of None \<Rightarrow> 0 | Some ys \<Rightarrow> of_nat (length ys))"

definition loadReports_clientStats ::
  "client_row list option \<Rightarrow> report_transaction list option \<Rightarrow> report_transaction list option
     \<Rightarrow> clientStats" where
  "loadReports_clientStats clients' kesTransactions usdTransactions =
     (let activeClients' =
            (case clients' of
               None \<Rightarrow> 0
             | Some cs \<Rightarrow> of_nat (length (filter (\<lambda>c. status c = ''active'') cs)));
          totalClients' = countOf clients';
          totalKES = netTotal kesTransactions;
          totalUSD = netTotal usdTransactions
      in \<lparr>totalClients = totalClients',
          activeClients = activeClients',
          inactiveClients = totalClients' - activeClients',
          totalBalanceKES = totalKES,
          totalBalanceUSD = totalUSD,
          totalTransactions = countOf kesTransactions + countOf usdTransactions\<rparr>)"










subsection \<open>CSV export\<close>

text \<open>
  A number in a template string: an integer below \<open>10^21\<close> in absolute value is shown by its
  decimal digits, with a minus sign when negative.
\<close>

definition numberToString :: "platform \<Rightarrow> rat \<Rightarrow> string" where
  "numberToString P x =
     (if x = of_int \<lfloor>x\<rfloor> \<and> \<bar>x\<bar> < 10 ^ 21
      then (if x < 0 then ''-'' else []) @ natToString (nat \<bar>\<lfloor>x\<rfloor>\<bar>)
      else numberToStringOther P x)"

definition newline :: string where
  "newline = [CHR 0x0A]"

definition topClientLine :: "platform \<Rightarrow> topClient \<Rightarrow> string" where
  "topClientLine P c =
     [CHR 0x22] @ client_name c @ [CHR 0x22] @ '','' @ client_code c @ '',''
       @ numberToString P (total_balance_kes c) @ '',''
       @ numberToString P (total_balance_usd c) @ '',''
       @ numberToString P (transaction_count c) @ newline"

definition trendLine :: "platform \<Rightarrow> monthlyTrend \<Rightarrow> string" where
  "trendLine P trend =
     month trend @ '','' @ numberToString P (transactions_kes trend) @ '',''
       @ numberToString P (transactions_usd trend) @ '',''
       @ numberToString P (balance_kes trend) @ '',''
       @ numberToString P (balance_usd trend) @ newline"

text \<open>
  \<^verbatim>\<open>exportToExcel\<close> (lines 573-628): the value of \<^verbatim>\<open>csvContent\<close> from which the downloaded
  file is made; each \<open>let\<close> is one \<^verbatim>\<open>csvContent += ...\<close>.
\<close>

definition exportToExcel ::
  "platform \<Rightarrow> clientStats \<Rightarrow> topClient list \<Rightarrow> monthlyTrend list \<Rightarrow> string" where
  "exportToExcel P stats topClients monthlyTrends =
     (let csv0 = ''Dinix - Financial Report'' @ newline;
          csv1 = csv0 @ ''Generated: '' @ localeString P @ newline @ newline;
          csv2 = csv1 @ ''SUMMARY STATISTICS'' @ newline;
          csv3 = csv2 @ ''Total Clients,'' @ numberToString P (totalClients stats) @ newline;
          csv4 = csv3 @ ''Active Clients,'' @ numberToString P (activeClients stats) @ newline;
          csv5 = csv4 @ ''Inactive Clients,'' @ numberToString P (inactiveClients stats)
                   @ newline;
          csv6 = csv5 @ ''Total Transactions,'' @ numberToString P (totalTransactions stats)
                   @ newline;
          csv7 = csv6 @ ''Total Balance (KES),'' @ numberToString P (totalBalanceKES stats)
                   @ newline;
          csv8 = csv7 @ ''Total Balance (USD),'' @ numberToString P (totalBalanceUSD stats)
                   @ newline @ newline;
          csv9 = (if length topClients > 0
                  then fold (\<lambda>c csv. csv @ topClientLine P c) topClients
                         (csv8 @ ''TOP CLIENTS'' @ newline
                            @ ''Client Name,Client Code,Balance (KES),Balance (USD),Transaction Count''
                            @ newline)
                       @ newline
                  else csv8);
          csv10 = (if length monthlyTrends > 0
                   then fold (\<lambda>trend csv. csv @ trendLine P trend) monthlyTrends
                          (csv9 @ ''MONTHLY TRENDS'' @ newline
                             @ ''Month,Transactions (KES),Transactions (USD),Balance (KES),Balance (USD)''
                             @ newline)
                   else csv9)
      in csv10)"

section \<open>A platform for the concrete instances\<close>

text \<open>
  The instances below are evaluated on a platform whose dates are ISO dates
  (\<^verbatim>\<open>YYYY-MM-DD\<close>): the time of a date is the number its digits spell, which orders ISO
  dates as the calendar does. Amounts are shown by their integer part.
\<close>

definition digitsValue :: "string \<Rightarrow> int" where
  "digitsValue s =
     foldl (\<lambda>n ch. if ch \<in> set ''0123456789'' then n * 10 + (int (of_char ch) - 48) else n) 0 s"

definition samplePlatform :: platform where
  "samplePlatform =
     \<lparr>formatCurrency = (\<lambda>x c. (case c of KES \<Rightarrow> ''KES '' | USD \<Rightarrow> ''USD '')
                                 @ natToString (nat \<lfloor>x\<rfloor>)),
      getTime = digitsValue,
      toLocaleDateString = (\<lambda>s. s),
      stmtDate = ''03 Nov 2026'',
      isoDate = ''2026-11-03'',
      localeString = ''03/11/2026, 10:00:00'',
      numberToStringOther = (\<lambda>x. ''?'')\<rparr>"

definition txn :: "string \<Rightarrow> string \<Rightarrow> rat \<Rightarrow> rat \<Rightarrow> transaction" where
  "txn date desc d c =
     \<lparr>transaction_date = date, description = Some desc, debit = Some d, credit = Some c,
      payment_method = None, reference_number = None, txn_notes = None\<rparr>"

definition clientEntry ::
  "string \<Rightarrow> string \<Rightarrow> transaction list \<Rightarrow> transaction list \<Rightarrow> client_txns" where
  "clientEntry name code kes usd =
     \<lparr>client = \<lparr>client_name = name, client_code = code, email = None, phone = None,
                 business_name = None, address = None\<rparr>,
      transactionsKES = kes, transactionsUSD = usd\<rparr>"

text \<open>
  The options with which ClientDetail.tsx calls the renderer (lines 544-601) for a client
  A with the given transactions.
\<close>

definition statementOptions ::
  "reportType \<Rightarrow> transaction list \<Rightarrow> transaction list \<Rightarrow> reportOptions" where
  "statementOptions rt kes usd =
     \<lparr>client = client (clientEntry ''A'' ''CA'' kes usd),
      transactionsKES = kes, transactionsUSD = usd,
      summaryKES = calculateSummary_ClientDetail kes,
      summaryUSD = calculateSummary_ClientDetail usd,
      reportType = rt\<rparr>"


section \<open>Notions used in the statements\<close>

text \<open>
  The description the specification gives to a merged transaction: the client's name, a
  dash and the original description, or the client's name alone when there is none.
\<close>

definition prefixedDescription :: "string \<Rightarrow> string option \<Rightarrow> string" where
  "prefixedDescription name d =
     (case d of None \<Rightarrow> name | Some s \<Rightarrow> (if s = [] then name else name @ '' - '' @ s))"

text \<open>The transactions of one client of the combiner, with their descriptions rewritten.\<close>

definition rewrittenKES :: "client_txns \<Rightarrow> transaction list" where
  "rewrittenKES c =
     map (\<lambda>t. t\<lparr>description := Some (prefixedDescription (client_name (client c)) (description t))\<rparr>)
       (transactionsKES c)"

definition rewrittenUSD :: "client_txns \<Rightarrow> transaction list" where
  "rewrittenUSD c =
     map (\<lambda>t. t\<lparr>description := Some (prefixedDescription (client_name (client c)) (description t))\<rparr>)
       (transactionsUSD c)"

text \<open>
  The report types whose flag selects a currency, as the conditions of \<^verbatim>\<open>showKES\<close> and
  \<^verbatim>\<open>showUSD\<close> list them (lines 63-70).
\<close>

definition selectsKES :: "reportType \<Rightarrow> bool" where
  "selectsKES rt = (rt = Full \<or> rt = KesOnly \<or> rt = Summary)"

definition selectsUSD :: "reportType \<Rightarrow> bool" where
  "selectsUSD rt = (rt = Full \<or> rt = UsdOnly)"

text \<open>The table sections of a document body, in the order in which they are rendered.\<close>

fun sectionsIn :: "body_item list \<Rightarrow> table_section list" where
  "sectionsIn [] = []"
| "sectionsIn (SectionItem s # items) = s # sectionsIn items"
| "sectionsIn (TextItem _ # items) = sectionsIn items"

text \<open>
  The specification's reading of the mileage pattern: the string contains the standalone
  whole word \<open>mg\<close>, in either case. There is a position \<open>i\<close> with an \<open>m\<close> at \<open>i\<close> and a
  \<open>g\<close> at \<open>i + 1\<close>, no word character just before \<open>i\<close> and none just after \<open>i + 1\<close>.
\<close>

definition wordMgAt :: "string \<Rightarrow> nat \<Rightarrow> bool" where
  "wordMgAt s i =
     (i + 1 < length s \<and> is_m (s ! i) \<and> is_g (s ! (i + 1))
      \<and> (i = 0 \<or> \<not> isWordChar (s ! (i - 1)))
      \<and> (i + 2 = length s \<or> \<not> isWordChar (s ! (i + 2))))"

definition containsWordMg :: "string \<Rightarrow> bool" where
  "containsWordMg s = (\<exists>i \<in> {0 ..< length s}. wordMgAt s i)"







section \<open>Properties of the ledger aggregator\<close>

lemma fold_paid_receivable:
  "fold (\<lambda>t (p, r). (p + or_zero (credit t), r + or_zero (debit t))) txns (p0, r0) =
     (p0 + sum_list (map (\<lambda>t. or_zero (credit t)) txns),
      r0 + sum_list (map (\<lambda>t. or_zero (debit t)) txns))"
  by (induction txns arbitrary: p0 r0) (simp_all add: add.assoc)






section \<open>Properties of the statement table\<close>

lemma insertBy_diff:
  fixes f :: "'a \<Rightarrow> 'b::{linordered_ab_group_add}"
  shows "insertBy (\<lambda>a b. f a - f b) x ys = insort_key f x ys"
  by (induction ys) simp_all

lemma sortBy_diff:
  fixes f :: "'a \<Rightarrow> 'b::{linordered_ab_group_add}"
  shows "sortBy (\<lambda>a b. f a - f b) xs = sort_key f xs"
  by (induction xs) (simp_all add: sortBy_def insertBy_diff sort_key_def)

lemma sortByDate_sort_key:
  "sortByDate P txns = sort_key (\<lambda>t. getTime P (transaction_date t)) txns"
  by (simp add: sortByDate_def sortBy_diff)

lemma sum_list_insort_key:
  fixes g :: "'a \<Rightarrow> rat"
  shows "sum_list (map g (insort_key f x xs)) = g x + sum_list (map g xs)"
  by (induction xs) simp_all

lemma sum_list_sort_key:
  fixes g :: "'a \<Rightarrow> rat"
  shows "sum_list (map g (sort_key f xs)) = sum_list (map g xs)"
  by (induction xs) (simp_all add: sum_list_insort_key)









section \<open>Properties of the interactive ledger\<close>









section \<open>Properties of the multi-client combiner\<close>


lemma pushAll_append: "pushAll name txns acc = acc @ map (rewriteDescription name) txns"
  unfolding pushAll_def by (induction txns arbitrary: acc) simp_all

lemma rewriteDescription_prefixed:
  "rewriteDescription name t = t\<lparr>description := Some (prefixedDescription name (description t))\<rparr>"
  by (simp add: rewriteDescription_def prefixedDescription_def or_empty_def Let_def
      split: option.splits)

lemma combine_fold:
  "fold (\<lambda>c (allKES, allUSD).
             (pushAll (client_name (client c)) (transactionsKES c) allKES,
              pushAll (client_name (client c)) (transactionsUSD c) allUSD))
       clients (k, u)
   = (k @ concat (map rewrittenKES clients), u @ concat (map rewrittenUSD clients))"
  by (induction clients arbitrary: k u)
     (simp_all add: pushAll_append rewrittenKES_def rewrittenUSD_def rewriteDescription_prefixed)

lemma combineAll_concat:
  "combineAll clients = (concat (map rewrittenKES clients), concat (map rewrittenUSD clients))"
  by (simp add: combineAll_def combine_fold)



lemma summary_sortByDate:
  "calculateSummary (sortByDate P txns) = calculateSummary txns"
  by (simp add: calculateSummary_def fold_paid_receivable sortByDate_sort_key sum_list_sort_key)





lemma combinedOptions_Inr:
  assumes "clients \<noteq> []"
  shows "combinedOptions P clients =
     Inr \<lparr>client = combinedClient clients,
          transactionsKES = sortByDate P (concat (map rewrittenKES clients)),
          transactionsUSD = sortByDate P (concat (map rewrittenUSD clients)),
          summaryKES = calculateSummary (concat (map rewrittenKES clients)),
          summaryUSD = calculateSummary (concat (map rewrittenUSD clients)),
          reportType = Full\<rparr>"
  using assms by (simp add: combinedOptions_def combineAll_concat summary_sortByDate)






text \<open>
  C6. For every non-empty client list the merged lists of the combiner are the clients'
  transactions, each with its description replaced by the client's name, a dash and the
  original description, or by the client's name alone when the original description is
  empty or missing, sorted by date. For the scenario of the specification (client A with a
  KES credit of 500 described as rent, client B with a KES debit of 200 and an empty
  description, whatever their dates and codes) the merged KES transactions are described
  \<open>A - rent\<close> and \<open>B\<close>, and the balance of the combined summary is 300.
\<close>

theorem C6_descriptions_rewritten:
  assumes "clients \<noteq> []"
  shows "(\<exists>options. combinedOptions P clients = Inr options
           \<and> transactionsKES options = sortByDate P (concat (map rewrittenKES clients))
           \<and> transactionsUSD options = sortByDate P (concat (map rewrittenUSD clients)))
    \<and> (\<exists>options.
          combinedOptions P
            [clientEntry ''A'' codeA [txn dateA ''rent'' 0 500] [],
             clientEntry ''B'' codeB [txn dateB [] 200 0] []] = Inr options
          \<and> transactionsKES options
              = sortByDate P [txn dateA ''A - rent'' 0 500, txn dateB ''B'' 200 0]
          \<and> balance (summaryKES options) = 300)"
proof
  show "\<exists>options. combinedOptions P clients = Inr options
           \<and> transactionsKES options = sortByDate P (concat (map rewrittenKES clients))
           \<and> transactionsUSD options = sortByDate P (concat (map rewrittenUSD clients))"
    by (simp add: combinedOptions_Inr [OF assms])
next
  let ?cs = "[clientEntry ''A'' codeA [txn dateA ''rent'' 0 500] [],
             clientEntry ''B'' codeB [txn dateB [] 200 0] []]"
  have ne: "?cs \<noteq> []" by simp
  have k: "concat (map rewrittenKES ?cs) = [txn dateA ''A - rent'' 0 500, txn dateB ''B'' 200 0]"
    by (simp add: rewrittenKES_def clientEntry_def txn_def prefixedDescription_def)
  have b: "balance (calculateSummary [txn dateA ''A - rent'' 0 500, txn dateB ''B'' 200 0]) = 300"
    by (simp add: calculateSummary_def txn_def or_zero_def)
  show "\<exists>options. combinedOptions P ?cs = Inr options
          \<and> transactionsKES options
              = sortByDate P [txn dateA ''A - rent'' 0 500, txn dateB ''B'' 200 0]
          \<and> balance (summaryKES options) = 300"
    unfolding combinedOptions_Inr [OF ne] k using b by simp
qed

text \<open>The scenario with client B's transaction dated before client A's.\<close>

theorem C6_descriptions_rewritten_witness:
  "[clientEntry ''A'' ''CA'' [txn ''2024-02-01'' ''rent'' 0 500] [],
    clientEntry ''B'' ''CB'' [txn ''2024-01-01'' [] 200 0] []] \<noteq> []
   \<and> (\<exists>options.
         combinedOptions samplePlatform
           [clientEntry ''A'' ''CA'' [txn ''2024-02-01'' ''rent'' 0 500] [],
            clientEntry ''B'' ''CB'' [txn ''2024-01-01'' [] 200 0] []] = Inr options
         \<and> map description (transactionsKES options) = [Some ''B'', Some ''A - rent'']
         \<and> balance (summaryKES options) = 300)"
proof -
  have h: "[clientEntry ''A'' ''CA'' [txn ''2024-02-01'' ''rent'' 0 500] [],
    clientEntry ''B'' ''CB'' [txn ''2024-01-01'' [] 200 0] []] \<noteq> []" by simp
  have s: "map description
      (sortByDate samplePlatform [txn ''2024-02-01'' ''A - rent'' 0 500, txn ''2024-01-01'' ''B'' 200 0])
      = [Some ''B'', Some ''A - rent'']"
    by (simp add: sortByDate_def sortBy_def samplePlatform_def digitsValue_def txn_def)
  from C6_descriptions_rewritten [OF h, of samplePlatform "''CA''" "''2024-02-01''" "''CB''" "''2024-01-01''"]
  obtain options where "combinedOptions samplePlatform
           [clientEntry ''A'' ''CA'' [txn ''2024-02-01'' ''rent'' 0 500] [],
            clientEntry ''B'' ''CB'' [txn ''2024-01-01'' [] 200 0] []] = Inr options"
     and "transactionsKES options
              = sortByDate samplePlatform [txn ''2024-02-01'' ''A - rent'' 0 500, txn ''2024-01-01'' ''B'' 200 0]"
     and "balance (summaryKES options) = 300"
    by blast
  with h s show ?thesis by simp
qed

lemma take2_nth: "2 < length xs \<Longrightarrow> take 2 xs = [xs ! 0, xs ! 1]"
  by (cases xs; cases "tl xs") (auto simp: numeral_2_eq_2)

text \<open>
  C7, as the code has it. For every non-empty client list the display name of the combined
  client is the client names joined with \<open>" & "\<close> when there are at most two clients, and
  otherwise the first two names joined with \<open>" & "\<close> followed by \<open>" + N more"\<close> (a plus sign
  between two spaces, then the number \<open>N\<close> of remaining clients in decimal, then
  \<open>" more"\<close>); the display code is all client codes joined with \<open>" + "\<close>.
\<close>

theorem C7_display_identity:
  assumes "clients \<noteq> []"
  shows "\<exists>options. combinedOptions P clients = Inr options
    \<and> client_name (client options) =
        (if length clients \<le> 2 then join '' & '' (map (\<lambda>c. client_name (client c)) clients)
         else client_name (client (clients ! 0)) @ '' & '' @ client_name (client (clients ! 1))
                @ '' + '' @ natToString (length clients - 2) @ '' more'')
    \<and> client_code (client options) = join '' + '' (map (\<lambda>c. client_code (client c)) clients)"
proof -
  have "2 < length clients \<Longrightarrow>
     take 2 (map (\<lambda>c. client_name (client c)) clients)
       = [client_name (client (clients ! 0)), client_name (client (clients ! 1))]"
  proof -
    assume a: "2 < length clients"
    then have "0 < length clients" and "1 < length clients" by linarith+
    with a show ?thesis
      using take2_nth [of "map (\<lambda>c. client_name (client c)) clients"] by simp
  qed
  then show ?thesis
    by (auto simp add: combinedOptions_Inr [OF assms] combinedClient_def displayName_def Let_def)
qed

text \<open>Four clients: two names, then two more.\<close>

theorem C7_display_identity_witness:
  "[clientEntry ''A'' ''CA'' [] [], clientEntry ''B'' ''CB'' [] [], clientEntry ''C'' ''CC'' [] [],
    clientEntry ''D'' ''CD'' [] []] \<noteq> []
   \<and> (\<exists>options.
         combinedOptions samplePlatform
           [clientEntry ''A'' ''CA'' [] [], clientEntry ''B'' ''CB'' [] [],
            clientEntry ''C'' ''CC'' [] [], clientEntry ''D'' ''CD'' [] []] = Inr options
         \<and> client_name (client options) = ''A & B + 2 more''
         \<and> client_code (client options) = ''CA + CB + CC + CD'')"
proof -
  have h: "[clientEntry ''A'' ''CA'' [] [], clientEntry ''B'' ''CB'' [] [], clientEntry ''C'' ''CC'' [] [],
    clientEntry ''D'' ''CD'' [] []] \<noteq> []" by simp
  from C7_display_identity [OF h, of samplePlatform] h show ?thesis
    by (simp add: clientEntry_def natToString.simps)
qed

text \<open>
  C7 as the specification words it gives the display name of more than two clients a
  \<open>"+N more"\<close> suffix. For three clients the display name is \<open>A & B + 1 more\<close>, which does not
  end in \<open>+1 more\<close>.
\<close>

theorem C7_plus_N_more_counterexample:
  "client_name (combinedClient
      [clientEntry ''A'' ''CA'' [] [], clientEntry ''B'' ''CB'' [] [], clientEntry ''C'' ''CC'' [] []])
     = ''A & B + 1 more''
   \<and> \<not> suffix ''+1 more''
        (client_name (combinedClient
           [clientEntry ''A'' ''CA'' [] [], clientEntry ''B'' ''CB'' [] [],
            clientEntry ''C'' ''CC'' [] []]))"
proof -
  have n: "client_name (combinedClient
      [clientEntry ''A'' ''CA'' [] [], clientEntry ''B'' ''CB'' [] [], clientEntry ''C'' ''CC'' [] []])
     = ''A & B + 1 more''"
    by (simp add: combinedClient_def displayName_def clientEntry_def natToString.simps)
  have "\<not> suffix ''+1 more'' ''A & B + 1 more''"
    by (simp add: suffix_def append_eq_Cons_conv)
  with n show ?thesis by simp
qed


section \<open>Properties of the statement renderer\<close>


lemma body_generateClientPDFReport:
  "body (fst (generateClientPDFReport P options)) =
     (if selectsKES (reportType options) \<and> transactionsKES options \<noteq> []
      then renderSection P (''TRANSACTION HISTORY '' @ emDash @ '' KES (Kenyan Shillings)'')
             (transactionsKES options) KES (summaryKES options) HEAD_GREEN []
      else [])
     @ (if selectsUSD (reportType options) \<and> transactionsUSD options \<noteq> []
        then renderSection P (''TRANSACTION HISTORY '' @ emDash @ '' USD (US Dollars)'')
               (transactionsUSD options) USD (summaryUSD options) HEAD_BLUE []
        else [])
     @ (if \<not> (selectsKES (reportType options) \<and> transactionsKES options \<noteq> [])
           \<and> \<not> (selectsUSD (reportType options) \<and> transactionsUSD options \<noteq> [])
        then [TextItem noTransactionsNotice] else [])"
  by (simp add: generateClientPDFReport_def Let_def selectsKES_def selectsUSD_def
      renderSection_def)

lemma renderSection_single:
  "\<exists>s. renderSection P label txns csym summ headColor [] = [SectionItem s] \<and> sec_sym s = csym"
  by (simp add: renderSection_def Let_def)

text \<open>
  C4. For every report type and every pair of transaction lists, the rendered statement has
  a section for a currency if and only if the report type selects the currency and the
  currency's transaction list is not empty; no currency has two sections; when neither
  currency has a section the body of the statement is the single notice
  \<open>No transactions recorded.\<close>, and otherwise the body consists of the sections alone.
\<close>

theorem C4_section_inclusion:
  "(KES \<in> set (map sec_sym (sectionsIn (body (fst (generateClientPDFReport P options)))))
      \<longleftrightarrow> selectsKES (reportType options) \<and> transactionsKES options \<noteq> [])
   \<and> (USD \<in> set (map sec_sym (sectionsIn (body (fst (generateClientPDFReport P options)))))
      \<longleftrightarrow> selectsUSD (reportType options) \<and> transactionsUSD options \<noteq> [])
   \<and> distinct (map sec_sym (sectionsIn (body (fst (generateClientPDFReport P options)))))
   \<and> (sectionsIn (body (fst (generateClientPDFReport P options))) = []
        \<longrightarrow> body (fst (generateClientPDFReport P options)) = [TextItem noTransactionsNotice])
   \<and> (sectionsIn (body (fst (generateClientPDFReport P options))) \<noteq> []
        \<longrightarrow> body (fst (generateClientPDFReport P options))
              = map SectionItem (sectionsIn (body (fst (generateClientPDFReport P options)))))"
proof -
  obtain k where k: "renderSection P (''TRANSACTION HISTORY '' @ emDash @ '' KES (Kenyan Shillings)'')
             (transactionsKES options) KES (summaryKES options) HEAD_GREEN [] = [SectionItem k]"
      and ks: "sec_sym k = KES"
    using renderSection_single by blast
  obtain u where u: "renderSection P (''TRANSACTION HISTORY '' @ emDash @ '' USD (US Dollars)'')
               (transactionsUSD options) USD (summaryUSD options) HEAD_BLUE [] = [SectionItem u]"
      and us: "sec_sym u = USD"
    using renderSection_single by blast
  show ?thesis
    unfolding body_generateClientPDFReport k u
    by (simp add: ks us)
qed


lemma currency_list_empty:
  "KES \<notin> set cs \<Longrightarrow> USD \<notin> set cs \<Longrightarrow> cs = []"
proof (cases cs)
  case Nil
  then show ?thesis .
next
  case (Cons a list)
  assume "KES \<notin> set cs" and "USD \<notin> set cs"
  with Cons show ?thesis by (cases a) simp_all
qed

text \<open>
  A \<open>summary\<close> report of a client with transactions in both currencies has the KES section
  only; a \<open>usd-only\<close> report of a client without USD transactions has the notice.
\<close>

theorem C4_section_inclusion_witness:
  "KES \<in> set (map sec_sym (sectionsIn (body (fst (generateClientPDFReport samplePlatform
       (statementOptions Summary [txn ''2024-01-05'' ''a'' 0 1000] [txn ''2024-01-06'' ''b'' 5 0]))))))
   \<and> USD \<notin> set (map sec_sym (sectionsIn (body (fst (generateClientPDFReport samplePlatform
       (statementOptions Summary [txn ''2024-01-05'' ''a'' 0 1000] [txn ''2024-01-06'' ''b'' 5 0]))))))
   \<and> body (fst (generateClientPDFReport samplePlatform
       (statementOptions UsdOnly [txn ''2024-01-05'' ''a'' 0 1000] [])))
       = [TextItem ''No transactions recorded.'']"
proof -
  let ?o1 = "statementOptions Summary [txn ''2024-01-05'' ''a'' 0 1000] [txn ''2024-01-06'' ''b'' 5 0]"
  let ?o2 = "statementOptions UsdOnly [txn ''2024-01-05'' ''a'' 0 1000] []"
  have a: "selectsKES (reportType ?o1) \<and> transactionsKES ?o1 \<noteq> []"
    and b: "\<not> selectsUSD (reportType ?o1)"
    and c: "\<not> selectsKES (reportType ?o2)" and d: "transactionsUSD ?o2 = []"
    by (simp_all add: statementOptions_def selectsKES_def selectsUSD_def)
  from C4_section_inclusion [of samplePlatform ?o1] a b
  have 1: "KES \<in> set (map sec_sym (sectionsIn (body (fst (generateClientPDFReport samplePlatform ?o1)))))"
    and 2: "USD \<notin> set (map sec_sym (sectionsIn (body (fst (generateClientPDFReport samplePlatform ?o1)))))"
    by blast+
  from C4_section_inclusion [of samplePlatform ?o2] c d
  have "KES \<notin> set (map sec_sym (sectionsIn (body (fst (generateClientPDFReport samplePlatform ?o2)))))"
    and "USD \<notin> set (map sec_sym (sectionsIn (body (fst (generateClientPDFReport samplePlatform ?o2)))))"
    by blast+
  then have "map sec_sym (sectionsIn (body (fst (generateClientPDFReport samplePlatform ?o2)))) = []"
    by (rule currency_list_empty)
  then have "sectionsIn (body (fst (generateClientPDFReport samplePlatform ?o2))) = []"
    by simp
  with C4_section_inclusion [of samplePlatform ?o2]
  have 3: "body (fst (generateClientPDFReport samplePlatform ?o2)) = [TextItem noTransactionsNotice]"
    by blast
  from 1 2 3 show ?thesis by (simp add: noTransactionsNotice_def)
qed



section \<open>Properties of the mileage count\<close>


lemma ex_nat_split: "(\<exists>i::nat. P i) \<longleftrightarrow> P 0 \<or> (\<exists>j. P (Suc j))"
  by (metis not0_implies_Suc)

lemma mgScan_iff:
  "mgScan p s \<longleftrightarrow>
     (\<exists>i. i + 1 < length s \<and> is_m (s ! i) \<and> is_g (s ! (i + 1))
          \<and> (if i = 0 then \<not> p else \<not> isWordChar (s ! (i - 1)))
          \<and> (i + 2 = length s \<or> \<not> isWordChar (s ! (i + 2))))"
proof (induction s arbitrary: p)
  case Nil
  then show ?case by simp
next
  case (Cons c cs)
  let ?Q = "\<lambda>i. i + 1 < length (c # cs) \<and> is_m ((c # cs) ! i) \<and> is_g ((c # cs) ! (i + 1))
          \<and> (if i = 0 then \<not> p else \<not> isWordChar ((c # cs) ! (i - 1)))
          \<and> (i + 2 = length (c # cs) \<or> \<not> isWordChar ((c # cs) ! (i + 2)))"
  have head: "((\<not> p) \<and> is_m c \<and>
         (case cs of
            [] \<Rightarrow> False
          | d # ds \<Rightarrow> is_g d \<and> (case ds of [] \<Rightarrow> True | e # _ \<Rightarrow> \<not> isWordChar e)))
       \<longleftrightarrow> ?Q 0"
    by (cases cs; cases "tl cs") auto
  have tail: "mgScan (isWordChar c) cs \<longleftrightarrow> (\<exists>j. ?Q (Suc j))"
    unfolding Cons.IH [of "isWordChar c"]
    by (rule arg_cong [where f = Ex], rule ext) (auto simp: nth_Cons split: nat.splits)
  have split: "(\<exists>i. ?Q i) \<longleftrightarrow> ?Q 0 \<or> (\<exists>j. ?Q (Suc j))"
    by (fact ex_nat_split)
  have "mgScan p (c # cs) \<longleftrightarrow> ?Q 0 \<or> (\<exists>j. ?Q (Suc j))"
    by (simp only: mgScan.simps head tail)
  with split show ?case by (simp only:)
qed


lemma testMg_iff: "testMg s \<longleftrightarrow> containsWordMg s"
proof -
  have "testMg s \<longleftrightarrow> (\<exists>i. i + 1 < length s \<and> is_m (s ! i) \<and> is_g (s ! (i + 1))
          \<and> (if i = 0 then \<not> False else \<not> isWordChar (s ! (i - 1)))
          \<and> (i + 2 = length s \<or> \<not> isWordChar (s ! (i + 2))))"
    by (simp only: testMg_def mgScan_iff)
  also have "\<dots> \<longleftrightarrow> (\<exists>i. wordMgAt s i)"
    unfolding wordMgAt_def
    by (rule arg_cong [where f = Ex], rule ext) (simp split: if_splits)
  also have "\<dots> \<longleftrightarrow> containsWordMg s"
  proof -
    have lt: "\<And>i. wordMgAt s i \<Longrightarrow> i \<in> {0 ..< length s}"
      by (simp add: wordMgAt_def)
    show ?thesis
      unfolding containsWordMg_def by (blast intro: lt)
  qed
  finally show ?thesis .
qed

lemma testMg_null: "\<not> testMg ''null''"
  by (simp add: testMg_def is_m_def is_g_def)

lemma mgCount_ClientDetail_eq: "mgCount_ClientDetail txns = mgCount txns"
proof -
  have "\<And>t::'a transaction_scheme.
          testMg (case description t of None \<Rightarrow> ''null'' | Some d \<Rightarrow> d)
            = testMg (or_empty (description t))"
    using testMg_null by (simp add: or_empty_def testMg_def split: option.splits)
  then show ?thesis
    by (simp add: mgCount_ClientDetail_def mgCount_def)
qed

lemma testMg_examples:
  "testMg ''MG run''" "\<not> testMg ''mileage''" "\<not> testMg ''3mg''"
  by (simp_all add: testMg_def is_m_def is_g_def isWordChar_def)

text \<open>
  C5. The count of the mileage footer row is the number of transactions whose description
  contains the standalone whole word \<open>mg\<close> in either case, in the statement and in the
  interactive ledger alike. \<open>MG run\<close> contains the word, \<open>mileage\<close> and \<open>3mg\<close> do not, so a
  list with these three descriptions counts exactly one match.
\<close>

theorem C5_mileage_count:
  "mgCount txns = length (filter (\<lambda>t. containsWordMg (or_empty (description t))) txns)
   \<and> mgCount_ClientDetail txns = mgCount txns
   \<and> (\<exists>s. renderSection P label txns csym summ headColor [] = [SectionItem s]
          \<and> sec_foot s ! 1 ! 1 = ''Mileage (MG) Count: '' @ natToString (mgCount txns) @ '' trip''
                 @ (if mgCount txns \<noteq> 1 then ''s'' else []))
   \<and> containsWordMg ''MG run'' \<and> \<not> containsWordMg ''mileage'' \<and> \<not> containsWordMg ''3mg''
   \<and> mgCount [txn d1 ''MG run'' a1 b1, txn d2 ''mileage'' a2 b2, txn d3 ''3mg'' a3 b3] = 1"
proof -
  have "mgCount [txn d1 ''MG run'' a1 b1, txn d2 ''mileage'' a2 b2, txn d3 ''3mg'' a3 b3] = 1"
    by (simp add: mgCount_def txn_def or_empty_def testMg_examples)
  moreover have "mgCount txns = length (filter (\<lambda>t. containsWordMg (or_empty (description t))) txns)"
    by (simp add: mgCount_def testMg_iff)
  ultimately show ?thesis
    using testMg_examples
    by (simp add: mgCount_ClientDetail_eq renderSection_def Let_def testMg_iff [symmetric])
qed

text \<open>Four transactions, two of which mention the word.\<close>

theorem C5_mileage_count_witness:
  "mgCount [txn ''2024-01-05'' ''MG run'' 0 10, txn ''2024-01-06'' ''mileage'' 0 10,
            txn ''2024-01-07'' ''3mg'' 0 10, txn ''2024-01-08'' ''fuel, mg.'' 0 10] = 2
   \<and> length (filter (\<lambda>t. containsWordMg (or_empty (description t)))
        [txn ''2024-01-05'' ''MG run'' 0 10, txn ''2024-01-06'' ''mileage'' 0 10,
         txn ''2024-01-07'' ''3mg'' 0 10, txn ''2024-01-08'' ''fuel, mg.'' 0 10]) = 2
   \<and> mgCount_ClientDetail
        [txn ''2024-01-05'' ''MG run'' 0 10, txn ''2024-01-06'' ''mileage'' 0 10,
         txn ''2024-01-07'' ''3mg'' 0 10, txn ''2024-01-08'' ''fuel, mg.'' 0 10] = 2"
proof -
  have "mgCount [txn ''2024-01-05'' ''MG run'' 0 10, txn ''2024-01-06'' ''mileage'' 0 10,
            txn ''2024-01-07'' ''3mg'' 0 10, txn ''2024-01-08'' ''fuel, mg.'' 0 10] = 2"
    by (simp add: mgCount_def txn_def or_empty_def testMg_def is_m_def is_g_def isWordChar_def)
  with C5_mileage_count [of "[txn ''2024-01-05'' ''MG run'' 0 10, txn ''2024-01-06'' ''mileage'' 0 10,
            txn ''2024-01-07'' ''3mg'' 0 10, txn ''2024-01-08'' ''fuel, mg.'' 0 10]"]
  show ?thesis by simp
qed



section \<open>Properties of the CSV export\<close>


lemma fold_append_lines: "fold (\<lambda>c csv. csv @ f c) xs acc = acc @ concat (map f xs)"
  by (induction xs arbitrary: acc) simp_all

lemma numberToString_values:
  "numberToString P 5 = ''5''" "numberToString P 3 = ''3''" "numberToString P 2 = ''2''"
  "numberToString P 12 = ''12''" "numberToString P 10000 = ''10000''"
  "numberToString P 250 = ''250''"
  by (simp_all add: numberToString_def natToString.simps)

text \<open>
  C8. For client statistics with 5 clients of which 3 are active, with the inactive count
  computed as the difference (as the report loader computes it), 12 transactions and the
  balances 10000 and 250, the exported CSV starts with the header lines and then the
  SUMMARY STATISTICS block with exactly the six lines of the specification, in its order,
  closed by an empty line; with no top clients and no monthly trends this is the whole
  file. The numbers are written in plain decimal digits.
\<close>

theorem C8_csv_summary_block:
  assumes "totalClients stats = 5" and "activeClients stats = 3"
    and "inactiveClients stats = totalClients stats - activeClients stats"
    and "totalTransactions stats = 12"
    and "totalBalanceKES stats = 10000" and "totalBalanceUSD stats = 250"
  shows "prefix
      (''Dinix - Financial Report'' @ newline
       @ ''Generated: '' @ localeString P @ newline @ newline
       @ ''SUMMARY STATISTICS'' @ newline
       @ ''Total Clients,5'' @ newline
       @ ''Active Clients,3'' @ newline
       @ ''Inactive Clients,2'' @ newline
       @ ''Total Transactions,12'' @ newline
       @ ''Total Balance (KES),10000'' @ newline
       @ ''Total Balance (USD),250'' @ newline @ newline)
      (exportToExcel P stats topClients monthlyTrends)
    \<and> exportToExcel P stats [] [] =
       ''Dinix - Financial Report'' @ newline
       @ ''Generated: '' @ localeString P @ newline @ newline
       @ ''SUMMARY STATISTICS'' @ newline
       @ ''Total Clients,5'' @ newline
       @ ''Active Clients,3'' @ newline
       @ ''Inactive Clients,2'' @ newline
       @ ''Total Transactions,12'' @ newline
       @ ''Total Balance (KES),10000'' @ newline
       @ ''Total Balance (USD),250'' @ newline @ newline
    \<and> inactiveClients (loadReports_clientStats cl kes usd)
        = totalClients (loadReports_clientStats cl kes usd)
            - activeClients (loadReports_clientStats cl kes usd)"
proof -
  have i: "inactiveClients stats = 2" using assms by simp
  have "\<exists>rest. exportToExcel P stats topClients monthlyTrends = 
       ''Dinix - Financial Report'' @ newline
       @ ''Generated: '' @ localeString P @ newline @ newline
       @ ''SUMMARY STATISTICS'' @ newline
       @ ''Total Clients,5'' @ newline
       @ ''Active Clients,3'' @ newline
       @ ''Inactive Clients,2'' @ newline
       @ ''Total Transactions,12'' @ newline
       @ ''Total Balance (KES),10000'' @ newline
       @ ''Total Balance (USD),250'' @ newline @ newline @ rest"
    by (simp add: exportToExcel_def Let_def fold_append_lines assms(1,2,4,5,6) i
        numberToString_values)
  then have 1: "prefix
      (''Dinix - Financial Report'' @ newline
       @ ''Generated: '' @ localeString P @ newline @ newline
       @ ''SUMMARY STATISTICS'' @ newline
       @ ''Total Clients,5'' @ newline
       @ ''Active Clients,3'' @ newline
       @ ''Inactive Clients,2'' @ newline
       @ ''Total Transactions,12'' @ newline
       @ ''Total Balance (KES),10000'' @ newline
       @ ''Total Balance (USD),250'' @ newline @ newline)
      (exportToExcel P stats topClients monthlyTrends)"
    unfolding prefix_def by (elim exE) (simp only: append_assoc, blast)
  have 2: "exportToExcel P stats [] [] =
       ''Dinix - Financial Report'' @ newline
       @ ''Generated: '' @ localeString P @ newline @ newline
       @ ''SUMMARY STATISTICS'' @ newline
       @ ''Total Clients,5'' @ newline
       @ ''Active Clients,3'' @ newline
       @ ''Inactive Clients,2'' @ newline
       @ ''Total Transactions,12'' @ newline
       @ ''Total Balance (KES),10000'' @ newline
       @ ''Total Balance (USD),250'' @ newline @ newline"
    by (simp add: exportToExcel_def Let_def assms(1,2,4,5,6) i numberToString_values)
  have 3: "inactiveClients (loadReports_clientStats cl kes usd)
        = totalClients (loadReports_clientStats cl kes usd)
            - activeClients (loadReports_clientStats cl kes usd)"
    by (simp add: loadReports_clientStats_def Let_def)
  from 1 2 3 show ?thesis by blast
qed


text \<open>The statistics of the scenario on the sample platform.\<close>

theorem C8_csv_summary_block_witness:
  "totalClients \<lparr>totalClients = 5, activeClients = 3, inactiveClients = 5 - 3,
       totalBalanceKES = 10000, totalBalanceUSD = 250, totalTransactions = 12\<rparr> = 5
   \<and> exportToExcel samplePlatform
        \<lparr>totalClients = 5, activeClients = 3, inactiveClients = 5 - 3,
         totalBalanceKES = 10000, totalBalanceUSD = 250, totalTransactions = 12\<rparr> [] []
      = ''Dinix - Financial Report'' @ newline
        @ ''Generated: 03/11/2026, 10:00:00'' @ newline @ newline
        @ ''SUMMARY STATISTICS'' @ newline
        @ ''Total Clients,5'' @ newline
        @ ''Active Clients,3'' @ newline
        @ ''Inactive Clients,2'' @ newline
        @ ''Total Transactions,12'' @ newline
        @ ''Total Balance (KES),10000'' @ newline
        @ ''Total Balance (USD),250'' @ newline @ newline"
proof -
  let ?s = "\<lparr>totalClients = 5, activeClients = 3, inactiveClients = 5 - 3,
       totalBalanceKES = 10000, totalBalanceUSD = 250, totalTransactions = 12\<rparr>"
  have "totalClients ?s = 5" and "activeClients ?s = 3"
    and "inactiveClients ?s = totalClients ?s - activeClients ?s"
    and "totalTransactions ?s = 12"
    and "totalBalanceKES ?s = 10000" and "totalBalanceUSD ?s = 250"
    by simp_all
  from C8_csv_summary_block [OF this, of samplePlatform]
  show ?thesis by (simp add: samplePlatform_def)
qed


section \<open>Properties of the analytics rollup\<close>

































end
